theory Spec2Isabelle
  imports Complex_Main "HOL-Library.Sublist"
begin

section \<open>The PaddleOCR-to-ONNX conversion script (main.py)\<close>

text \<open>
  The script is a sequence of effects on the outside world: it reads and writes the file
  system, starts the external converter, calls the tar and onnx libraries and writes log
  records. The model passes a \<open>world\<close> through every function. What the outside does
  (the converter's exit status, what an archive holds, whether a model file loads) is a
  parameter, the record \<open>env\<close>; every theorem holds for all environments.
\<close>

subsection \<open>Paths (pathlib.Path on POSIX)\<close>

text \<open>
  A path is its anchor (absolute or not) and its components. Components are not empty and
  hold no separator.
\<close>

datatype path = Path bool "string list"

fun join_slash :: "string list \<Rightarrow> string" where
  "join_slash [] = []"
| "join_slash [p] = p"
| "join_slash (p # q # qs) = p @ CHR ''/'' # join_slash (q # qs)"

text \<open>\<open>str(path)\<close>.\<close>

fun path_str :: "path \<Rightarrow> string" where
  "path_str (Path True ps) = CHR ''/'' # join_slash ps"
| "path_str (Path False ps) = (if ps = [] then ''.'' else join_slash ps)"

text \<open>\<open>Path.name\<close>: the final component, the empty string when there is none.\<close>

fun path_name :: "path \<Rightarrow> string" where
  "path_name (Path a ps) = (if ps = [] then [] else last ps)"

text \<open>
  \<open>str.rfind('.')\<close>: the index of the last dot, \<open>None\<close> for Python's \<open>-1\<close>.
\<close>

fun rfind_dot :: "string \<Rightarrow> nat option" where
  "rfind_dot [] = None"
| "rfind_dot (c # cs) =
     (case rfind_dot cs of
        Some i \<Rightarrow> Some (Suc i)
      | None \<Rightarrow> (if c = CHR ''.'' then Some 0 else None))"

text \<open>
  \<open>Path.stem\<close>: with \<open>i = name.rfind('.')\<close>, the stem is \<open>name[:i]\<close> if
  \<open>0 < i < len(name) - 1\<close>, and the whole name otherwise.
\<close>

fun path_stem :: "path \<Rightarrow> string" where
  "path_stem p =
     (let name = path_name p in
      case rfind_dot name of
        None \<Rightarrow> name
      | Some i \<Rightarrow> (if 0 < i \<and> Suc i < length name then take i name else name))"

text \<open>
  \<open>path / s\<close> for a string \<open>s\<close> that holds no separator (a stem or a file name):
  joining the empty string leaves the path as it is.
\<close>

fun joinpath :: "path \<Rightarrow> string \<Rightarrow> path" where
  "joinpath (Path a ps) s = (if s = [] then Path a ps else Path a (ps @ [s]))"

subsection \<open>Exceptions\<close>

text \<open>
  \<open>Exception cls msg\<close> is any instance of a subclass of \<open>Exception\<close> raised by a
  library or by the operating system, with \<open>str(e) = msg\<close>. \<open>SystemExit\<close> is what
  \<open>sys.exit\<close> raises; it is not an \<open>Exception\<close>.
\<close>

datatype exn =
    RuntimeError string
  | Exception string string
  | SystemExit int

fun is_Exception :: "exn \<Rightarrow> bool" where
  "is_Exception (RuntimeError m) = True"
| "is_Exception (Exception c m) = True"
| "is_Exception (SystemExit n) = False"

fun exn_str :: "exn \<Rightarrow> string" where
  "exn_str (RuntimeError m) = m"
| "exn_str (Exception c m) = m"
| "exn_str (SystemExit n) = []"

subsection \<open>The world and the environment\<close>

text \<open>
  The file system maps a path to the \<open>st_size\<close> that \<open>stat\<close> reports, \<open>None\<close> when
  nothing is there. The world also holds the log records written so far (the message of
  each \<open>logging.info\<close> call, in order) and the external calls made so far.
\<close>

type_synonym filesystem = "path \<Rightarrow> nat option"

datatype call = Subprocess "string list" | TarExtract path path

record world =
  fs :: filesystem
  logged :: "string list"
  calls :: "call list"

record proc_result =
  returncode :: int
  stdout :: string
  stderr :: string

record value_info =
  vi_name :: string
  vi_type :: string

record model =
  graph_input :: "value_info list"
  graph_output :: "value_info list"

text \<open>
  The environment: where the script lives, the clock, and the behaviour of
  \<open>subprocess.run\<close>, of \<open>tarfile.open\<close> with \<open>extractall\<close>, of \<open>onnx.load\<close> and of
  \<open>onnx.checker.check_model\<close>. A library call that raises gives the class name and the
  message of the exception, which is an instance of \<open>Exception\<close>.
\<close>

record env =
  BASE_DIR :: path
  now :: string
  subprocess_run :: "string list \<Rightarrow> filesystem \<Rightarrow> ((string \<times> string) + proc_result) \<times> filesystem"
  tar_extractall :: "path \<Rightarrow> path \<Rightarrow> filesystem \<Rightarrow> (string \<times> string) option \<times> filesystem"
  onnx_load :: "string \<Rightarrow> filesystem \<Rightarrow> (string \<times> string) + model"
  check_model :: "model \<Rightarrow> (string \<times> string) option"

definition MODEL_DIR :: "env \<Rightarrow> path" where
  "MODEL_DIR E = joinpath (BASE_DIR E) ''PP_OCR_models''"

definition OUTPUT_DIR :: "env \<Rightarrow> path" where
  "OUTPUT_DIR E = joinpath (BASE_DIR E) ''output''"

definition OUTPUT_VALIDATE_DIR :: "env \<Rightarrow> path" where
  "OUTPUT_VALIDATE_DIR E = joinpath (BASE_DIR E) ''validation''"

definition LOG_FILE :: "env \<Rightarrow> path" where
  "LOG_FILE E = joinpath (OUTPUT_VALIDATE_DIR E) ''onnx_validation.log''"

definition DET_TAR :: "env \<Rightarrow> path" where
  "DET_TAR E = joinpath (MODEL_DIR E) ''ch_PP-OCRv4_det_infer.tar''"

definition REC_TAR :: "env \<Rightarrow> path" where
  "REC_TAR E = joinpath (MODEL_DIR E) ''ch_PP-OCRv4_rec_infer.tar''"

definition DET_ONNX :: "env \<Rightarrow> path" where
  "DET_ONNX E = joinpath (OUTPUT_DIR E) ''det.onnx''"

definition REC_ONNX :: "env \<Rightarrow> path" where
  "REC_ONNX E = joinpath (OUTPUT_DIR E) ''rec.onnx''"

definition OPSET :: nat where
  "OPSET = 11"

text \<open>\<open>log = logging.info\<close>: one record per call, appended to the log.\<close>

definition log_info :: "string \<Rightarrow> world \<Rightarrow> world" where
  "log_info msg w = w\<lparr>logged := logged w @ [msg]\<rparr>"

subsection \<open>Strings\<close>

abbreviation nl :: string where
  "nl \<equiv> [CHR 0x0A]"

text \<open>\<open>str(n)\<close> for a natural number: its decimal digits.\<close>

fun str_nat :: "nat \<Rightarrow> string" where
  "str_nat n =
     (if n < 10 then [''0123456789'' ! n]
      else str_nat (n div 10) @ [''0123456789'' ! (n mod 10)])"

declare str_nat.simps [simp del]

text \<open>
  \<open>str.isspace\<close> on the code points below 256, and \<open>str.strip()\<close>.
\<close>

definition is_space :: "char \<Rightarrow> bool" where
  "is_space c = (of_char c \<in> {9, 10, 11, 12, 13, 28, 29, 30, 31, 32, 133, 160 :: nat})"

definition strip :: "string \<Rightarrow> string" where
  "strip s = rev (dropWhile is_space (rev (dropWhile is_space s)))"

subsection \<open>run\_cmd\<close>

definition run_cmd :: "env \<Rightarrow> string list \<Rightarrow> string \<Rightarrow> world \<Rightarrow> (exn + string) \<times> world" where
  "run_cmd E cmd error_msg w =
     (case subprocess_run E cmd (fs w) of
        (r, fs') \<Rightarrow>
          (let w' = w\<lparr>fs := fs', calls := calls w @ [Subprocess cmd]\<rparr> in
           case r of
             Inl (c, m) \<Rightarrow> (Inl (Exception c m), w')
           | Inr result \<Rightarrow>
               (if returncode result \<noteq> 0
                then (Inl (RuntimeError (error_msg @ nl @ stderr result)), w')
                else (Inr (strip (stdout result)), w'))))"

subsection \<open>Python floats: the size in megabytes and its rendering\<close>

text \<open>
  A float is modelled by the rational number it holds. \<open>bitlen n\<close> is
  \<open>n.bit_length()\<close>. \<open>round53 n\<close> is the integer with at most 53 significant bits
  nearest to \<open>n\<close>, ties to the even mantissa: the value of \<open>float(n)\<close>.
\<close>

fun bitlen :: "nat \<Rightarrow> nat" where
  "bitlen n = (if n = 0 then 0 else Suc (bitlen (n div 2)))"

declare bitlen.simps [simp del]

definition round_half_even_div :: "nat \<Rightarrow> nat \<Rightarrow> nat" where
  "round_half_even_div a b =
     (let q = a div b; r = a mod b in
      if 2 * r > b \<or> (2 * r = b \<and> odd q) then q + 1 else q)"

definition round53 :: "nat \<Rightarrow> nat" where
  "round53 n =
     (if bitlen n \<le> 53 then n
      else (let s = bitlen n - 53 in round_half_even_div n (2 ^ s) * 2 ^ s))"

text \<open>
  \<open>n / 2 ** k\<close> for a Python int \<open>n\<close>: the binary64 number nearest to the quotient.
  Dividing by a power of two only moves the exponent, so the result is \<open>float(n)\<close>
  scaled (no overflow or underflow for \<open>n\<close> below \<open>2 ** 1024\<close> and small \<open>k\<close>).
\<close>

definition py_truediv_pow2 :: "nat \<Rightarrow> nat \<Rightarrow> rat" where
  "py_truediv_pow2 n k = of_nat (round53 n) / 2 ^ k"

text \<open>
  \<open>f"{x:.2f}"\<close> for a float \<open>x \<ge> 0\<close>: the exact value of \<open>x\<close> rounded to the
  nearest hundredth, ties to even, written with all integer digits, a point and two
  decimals.
\<close>

definition hundredths :: "rat \<Rightarrow> nat" where
  "hundredths x =
     (let y = x * 100; f = nat \<lfloor>y\<rfloor>; r = y - of_nat f in
      if r > 1 / 2 \<or> (r = 1 / 2 \<and> odd f) then f + 1 else f)"

definition format_2f :: "rat \<Rightarrow> string" where
  "format_2f x =
     (let h = hundredths x in
      str_nat (h div 100) @ ''.'' @ str_nat (h mod 100 div 10) @ str_nat (h mod 10))"

subsection \<open>extract\_tar\<close>

definition extract_tar :: "env \<Rightarrow> path \<Rightarrow> path \<Rightarrow> world \<Rightarrow> (exn + path) \<times> world" where
  "extract_tar E tar_path dest w0 =
     (let model_name = path_stem tar_path;
          extract_path = joinpath dest model_name
      in
      if fs w0 extract_path \<noteq> None
      then (Inr extract_path, log_info (''Already extracted: '' @ model_name) w0)
      else
        (let w1 = log_info (''Extracting '' @ path_name tar_path @ ''...'') w0 in
         case tar_extractall E tar_path dest (fs w1) of
           (r, fs') \<Rightarrow>
             (let w2 = w1\<lparr>fs := fs', calls := calls w1 @ [TarExtract tar_path dest]\<rparr> in
              case r of
                Some (c, m) \<Rightarrow> (Inl (Exception c m), w2)
              | None \<Rightarrow>
                  (Inr extract_path,
                   log_info (''Extracted to '' @ path_str extract_path) w2))))"

subsection \<open>paddle\_to\_onnx\<close>

definition converter_cmd :: "path \<Rightarrow> path \<Rightarrow> string list" where
  "converter_cmd paddle_dir onnx_out =
     [''paddle2onnx'',
      ''--model_dir'', path_str paddle_dir,
      ''--model_filename'', ''inference.pdmodel'',
      ''--params_filename'', ''inference.pdiparams'',
      ''--save_file'', path_str onnx_out,
      ''--opset_version'', str_nat OPSET,
      ''--enable_onnx_checker'', ''True'']"

text \<open>
  \<open>onnx_out.stat()\<close> raises \<open>FileNotFoundError\<close> when nothing is at the path; the
  message quotes the path (written here for a path of plain printable characters).
\<close>

definition paddle_to_onnx :: "env \<Rightarrow> path \<Rightarrow> path \<Rightarrow> world \<Rightarrow> (exn + unit) \<times> world" where
  "paddle_to_onnx E paddle_dir onnx_out w0 =
     (let w1 = log_info (''Converting '' @ path_name onnx_out @ '' to ONNX...'') w0;
          cmd = converter_cmd paddle_dir onnx_out
      in
      case run_cmd E cmd ''Paddle to ONNX conversion failed'' w1 of
        (Inl e, w2) \<Rightarrow> (Inl e, w2)
      | (Inr out, w2) \<Rightarrow>
          (case fs w2 onnx_out of
             None \<Rightarrow>
               (Inl (Exception ''FileNotFoundError''
                       (''[Errno 2] No such file or directory: '' @ [CHR 0x27]
                          @ path_str onnx_out @ [CHR 0x27])), w2)
           | Some st_size \<Rightarrow>
               (let size = py_truediv_pow2 st_size 20 in
                (Inr (),
                 log_info (''ONNX model saved: '' @ path_str onnx_out @ '' (''
                             @ format_2f size @ '' MB)'') w2))))"

subsection \<open>validate\_onnx\<close>

text \<open>
  \<open>try: body except Exception as e: handler\<close>. The handler runs for an instance of
  \<open>Exception\<close>; anything else goes on to the caller.
\<close>

definition try_except ::
  "(exn + 'a) \<times> world \<Rightarrow> (exn \<Rightarrow> world \<Rightarrow> (exn + 'a) \<times> world) \<Rightarrow> (exn + 'a) \<times> world" where
  "try_except body handler =
     (case body of
        (Inl e, w) \<Rightarrow> (if is_Exception e then handler e w else (Inl e, w))
      | (Inr v, w) \<Rightarrow> (Inr v, w))"

text \<open>The loops over \<open>model.graph.input\<close> and \<open>model.graph.output\<close>.\<close>

definition value_info_entry :: "value_info \<Rightarrow> string" where
  "value_info_entry i = ''  '' @ vi_name i @ '': '' @ vi_type i"

fun log_value_infos :: "value_info list \<Rightarrow> world \<Rightarrow> world" where
  "log_value_infos [] w = w"
| "log_value_infos (i # rest) w = log_value_infos rest (log_info (value_info_entry i) w)"

definition validate_onnx :: "env \<Rightarrow> path \<Rightarrow> world \<Rightarrow> (exn + unit) \<times> world" where
  "validate_onnx E onnx_file w0 =
     (let w1 = log_info (''Validating '' @ path_name onnx_file @ ''...'') w0 in
      try_except
        (case onnx_load E (path_str onnx_file) (fs w1) of
           Inl (c, m) \<Rightarrow> (Inl (Exception c m), w1)
         | Inr model \<Rightarrow>
             (case check_model E model of
                Some (c, m) \<Rightarrow> (Inl (Exception c m), w1)
              | None \<Rightarrow>
                  (let w2 = log_info (''[OK] '' @ path_name onnx_file @ '' is valid'') w1;
                       w3 = log_info ''Inputs:'' w2;
                       w4 = log_value_infos (graph_input model) w3;
                       w5 = log_info ''Outputs:'' w4;
                       w6 = log_value_infos (graph_output model) w5
                   in (Inr (), w6))))
        (\<lambda>e w. (Inr (),
                 log_info (''[ERROR] '' @ path_name onnx_file @ '' failed validation: ''
                             @ exn_str e) w)))"

subsection \<open>convert\_models and main\<close>

definition banner :: "string \<Rightarrow> string" where
  "banner name =
     nl @ replicate 60 CHR ''='' @ nl @ ''Converting '' @ name @ '' Model'' @ nl
        @ replicate 60 CHR ''=''"

definition convert_models :: "env \<Rightarrow> path \<Rightarrow> path \<Rightarrow> string \<Rightarrow> world \<Rightarrow> (exn + unit) \<times> world" where
  "convert_models E tar_path output_onnx name w0 =
     (let w1 = log_info (banner name) w0 in
      case extract_tar E tar_path (MODEL_DIR E) w1 of
        (Inl e, w2) \<Rightarrow> (Inl e, w2)
      | (Inr paddle_dir, w2) \<Rightarrow>
          (case paddle_to_onnx E paddle_dir output_onnx w2 of
             (Inl e, w3) \<Rightarrow> (Inl e, w3)
           | (Inr u, w3) \<Rightarrow> validate_onnx E output_onnx w3))"

definition main :: "env \<Rightarrow> world \<Rightarrow> (exn + unit) \<times> world" where
  "main E w0 =
     (let w1 = log_info (''PaddleOCR Model Converter (ONNX only) - '' @ now E @ nl) w0 in
      case try_except
             (case convert_models E (DET_TAR E) (DET_ONNX E) ''Detection'' w1 of
                (Inl e, w2) \<Rightarrow> (Inl e, w2)
              | (Inr u, w2) \<Rightarrow>
                  convert_models E (REC_TAR E) (REC_ONNX E) ''Recognition'' w2)
             (\<lambda>e w. (Inl (SystemExit 1),
                      log_info (''[ERROR] Conversion failed: '' @ exn_str e) w))
      of
        (Inl e, w3) \<Rightarrow> (Inl e, w3)
      | (Inr u, w3) \<Rightarrow>
          (let w4 = log_info (nl @ ''Conversion complete!'') w3;
               w5 = log_info (''Output directory: '' @ path_str (OUTPUT_DIR E)) w4;
               w6 = log_info (''Validation log saved to: '' @ path_str (LOG_FILE E)) w5
           in (Inr (), w6)))"

text \<open>
  The exit status of the interpreter running the script: 0 when \<open>main\<close> returns, the
  code of a \<open>SystemExit\<close>, 1 for any other exception that reaches the top level.
\<close>

fun exit_status :: "(exn + unit) \<Rightarrow> int" where
  "exit_status (Inr u) = 0"
| "exit_status (Inl (SystemExit n)) = n"
| "exit_status (Inl e) = 1"

subsection \<open>Concrete environments\<close>

text \<open>
  Small environments on which the theorems below are run: a converter that fails with
  \<open>missing op\<close>, one that writes the file named after \<open>--save_file\<close>, one that exits
  with status 0 and writes nothing; an archive that unpacks into the directory named after
  its stem, and one that unpacks elsewhere; a model with one input \<open>x\<close> and one output
  \<open>y\<close>, and a file that does not load.
\<close>

definition app_dir :: path where
  "app_dir = Path True [''app'']"

definition converter_fails ::
  "string list \<Rightarrow> filesystem \<Rightarrow> ((string \<times> string) + proc_result) \<times> filesystem" where
  "converter_fails cmd f =
     (Inr \<lparr>returncode = 1, stdout = [], stderr = ''missing op''\<rparr>, f)"

definition converter_writes ::
  "nat \<Rightarrow> string list \<Rightarrow> filesystem \<Rightarrow> ((string \<times> string) + proc_result) \<times> filesystem" where
  "converter_writes n cmd f =
     (Inr \<lparr>returncode = 0, stdout = [], stderr = []\<rparr>,
      (if cmd ! 8 = ''/app/output/det.onnx''
       then f(Path True [''app'', ''output'', ''det.onnx''] \<mapsto> n)
       else f(Path True [''app'', ''output'', ''rec.onnx''] \<mapsto> n)))"

definition converter_silent ::
  "string list \<Rightarrow> filesystem \<Rightarrow> ((string \<times> string) + proc_result) \<times> filesystem" where
  "converter_silent cmd f = (Inr \<lparr>returncode = 0, stdout = [], stderr = []\<rparr>, f)"

definition tar_unpacks ::
  "path \<Rightarrow> path \<Rightarrow> filesystem \<Rightarrow> (string \<times> string) option \<times> filesystem" where
  "tar_unpacks tar_path dest f = (None, f(joinpath dest (path_stem tar_path) \<mapsto> 4096))"

definition tar_elsewhere ::
  "path \<Rightarrow> path \<Rightarrow> filesystem \<Rightarrow> (string \<times> string) option \<times> filesystem" where
  "tar_elsewhere tar_path dest f = (None, f(joinpath dest ''inference'' \<mapsto> 4096))"

definition model_xy :: model where
  "model_xy =
     \<lparr>graph_input = [\<lparr>vi_name = ''x'', vi_type = ''tensor_type''\<rparr>],
      graph_output = [\<lparr>vi_name = ''y'', vi_type = ''tensor_type''\<rparr>]\<rparr>"

definition loads_xy :: "string \<Rightarrow> filesystem \<Rightarrow> (string \<times> string) + model" where
  "loads_xy s f = Inr model_xy"

definition load_fails :: "string \<Rightarrow> filesystem \<Rightarrow> (string \<times> string) + model" where
  "load_fails s f = Inl (''DecodeError'', ''Error parsing message'')"

definition example_env ::
  "(string list \<Rightarrow> filesystem \<Rightarrow> ((string \<times> string) + proc_result) \<times> filesystem)
   \<Rightarrow> (path \<Rightarrow> path \<Rightarrow> filesystem \<Rightarrow> (string \<times> string) option \<times> filesystem)
   \<Rightarrow> (string \<Rightarrow> filesystem \<Rightarrow> (string \<times> string) + model) \<Rightarrow> env" where
  "example_env run untar load =
     \<lparr>BASE_DIR = app_dir, now = ''2024-01-01 00:00:00.000000'',
      subprocess_run = run, tar_extractall = untar, onnx_load = load,
      check_model = (\<lambda>m. None)\<rparr>"

definition world0 :: world where
  "world0 =
     \<lparr>fs = [Path True [''app'', ''PP_OCR_models'', ''ch_PP-OCRv4_det_infer.tar''] \<mapsto> 4884480,
             Path True [''app'', ''PP_OCR_models'', ''ch_PP-OCRv4_rec_infer.tar''] \<mapsto> 11223040],
      logged = [], calls = []\<rparr>"

definition env_good :: env where
  "env_good = example_env (converter_writes 2621440) tar_unpacks loads_xy"

definition env_load_fails :: env where
  "env_load_fails = example_env (converter_writes 2621440) tar_unpacks load_fails"

definition env_converter_fails :: env where
  "env_converter_fails = example_env converter_fails tar_unpacks loads_xy"

definition env_no_output :: env where
  "env_no_output = example_env converter_silent tar_unpacks loads_xy"

definition env_unpacks_elsewhere :: env where
  "env_unpacks_elsewhere = example_env (converter_writes 2621440) tar_elsewhere loads_xy"

fun is_extraction :: "call \<Rightarrow> bool" where
  "is_extraction (TarExtract t d) = True"
| "is_extraction (Subprocess c) = False"

definition extractions :: "call list \<Rightarrow> nat" where
  "extractions cs = length (filter is_extraction cs)"

section \<open>Properties\<close>

subsection \<open>Helper lemmas\<close>

lemma run_cmd_calls: "calls (snd (run_cmd E cmd msg w)) = calls w @ [Subprocess cmd]"
  by (auto simp: run_cmd_def Let_def split: prod.splits sum.splits)

lemma run_cmd_logged: "logged (snd (run_cmd E cmd msg w)) = logged w"
  by (auto simp: run_cmd_def Let_def split: prod.splits sum.splits)

lemma run_cmd_nonzero:
  assumes "subprocess_run E cmd (fs w) = (Inr result, fs')" and "returncode result \<noteq> 0"
  shows "run_cmd E cmd msg w =
           (Inl (RuntimeError (msg @ nl @ stderr result)),
            w\<lparr>fs := fs', calls := calls w @ [Subprocess cmd]\<rparr>)"
  using assms by (simp add: run_cmd_def)

lemma run_cmd_zero:
  assumes "subprocess_run E cmd (fs w) = (Inr result, fs')" and "returncode result = 0"
  shows "run_cmd E cmd msg w =
           (Inr (strip (stdout result)), w\<lparr>fs := fs', calls := calls w @ [Subprocess cmd]\<rparr>)"
  using assms by (simp add: run_cmd_def)

lemma log_value_infos_logged:
  "logged (log_value_infos xs w) = logged w @ map value_info_entry xs"
  by (induction xs arbitrary: w) (simp_all add: log_info_def)

lemma log_value_infos_fs: "fs (log_value_infos xs w) = fs w"
  by (induction xs arbitrary: w) (simp_all add: log_info_def)

lemma log_value_infos_calls: "calls (log_value_infos xs w) = calls w"
  by (induction xs arbitrary: w) (simp_all add: log_info_def)

lemma validate_onnx_returns: "fst (validate_onnx E onnx_file w) = Inr ()"
  by (simp add: validate_onnx_def try_except_def Let_def split: sum.splits option.splits prod.splits)

lemma validate_onnx_failure_logged:
  assumes "onnx_load E (path_str onnx_file) (fs w) = Inl (c, m)
           \<or> (\<exists>model. onnx_load E (path_str onnx_file) (fs w) = Inr model
                        \<and> check_model E model = Some (c, m))"
  shows "logged (snd (validate_onnx E onnx_file w)) =
           logged w @ [''Validating '' @ path_name onnx_file @ ''...'',
                       ''[ERROR] '' @ path_name onnx_file @ '' failed validation: '' @ m]"
  using assms
  by (auto simp: validate_onnx_def try_except_def Let_def log_info_def)

lemma validate_onnx_ok_records:
  assumes "onnx_load E (path_str onnx_file) (fs w) = Inr model" and "check_model E model = None"
  shows "logged (snd (validate_onnx E onnx_file w)) =
           logged w @ [''Validating '' @ path_name onnx_file @ ''...'',
                       ''[OK] '' @ path_name onnx_file @ '' is valid'',
                       ''Inputs:'']
             @ map value_info_entry (graph_input model)
             @ [''Outputs:'']
             @ map value_info_entry (graph_output model)"
  using assms
  by (simp add: validate_onnx_def try_except_def Let_def log_info_def log_value_infos_logged)

lemma validate_onnx_fs: "fs (snd (validate_onnx E onnx_file w)) = fs w"
  by (simp add: validate_onnx_def try_except_def Let_def log_info_def log_value_infos_fs
           split: sum.splits option.splits prod.splits)

lemma validate_onnx_calls: "calls (snd (validate_onnx E onnx_file w)) = calls w"
  by (simp add: validate_onnx_def try_except_def Let_def log_info_def log_value_infos_calls
           split: sum.splits option.splits prod.splits)

lemma paddle_to_onnx_calls:
  "calls (snd (paddle_to_onnx E paddle_dir onnx_out w)) =
     calls w @ [Subprocess (converter_cmd paddle_dir onnx_out)]"
proof -
  let ?w1 = "log_info (''Converting '' @ path_name onnx_out @ '' to ONNX...'') w"
  let ?r = "run_cmd E (converter_cmd paddle_dir onnx_out) ''Paddle to ONNX conversion failed'' ?w1"
  have "calls (snd ?r) = calls w @ [Subprocess (converter_cmd paddle_dir onnx_out)]"
    by (simp add: run_cmd_calls log_info_def)
  then show ?thesis
    by (cases ?r) (auto simp: paddle_to_onnx_def Let_def log_info_def split: sum.splits option.splits)
qed

lemma path_name_joinpath: "s \<noteq> [] \<Longrightarrow> path_name (joinpath p s) = s"
  by (cases p) simp

lemma DET_TAR_name: "path_name (DET_TAR E) = ''ch_PP-OCRv4_det_infer.tar''"
  by (simp add: DET_TAR_def path_name_joinpath)

lemma DET_TAR_stem: "path_stem (DET_TAR E) = ''ch_PP-OCRv4_det_infer''"
  by (simp add: DET_TAR_def path_name_joinpath)

lemma DET_ONNX_name: "path_name (DET_ONNX E) = ''det.onnx''"
  by (simp add: DET_ONNX_def path_name_joinpath)

lemma run_cmd_exn: "fst (run_cmd E cmd msg w) = Inl e \<Longrightarrow> is_Exception e"
  by (auto simp: run_cmd_def Let_def split: prod.splits sum.splits if_splits)

lemma paddle_to_onnx_exn:
  assumes "fst (paddle_to_onnx E paddle_dir onnx_out w) = Inl e"
  shows "is_Exception e"
proof -
  let ?w1 = "log_info (''Converting '' @ path_name onnx_out @ '' to ONNX...'') w"
  let ?r = "run_cmd E (converter_cmd paddle_dir onnx_out) ''Paddle to ONNX conversion failed'' ?w1"
  show ?thesis
  proof (cases "fst ?r")
    case (Inl e')
    then have "is_Exception e'" by (rule run_cmd_exn)
    with Inl assms show ?thesis
      by (cases ?r) (auto simp: paddle_to_onnx_def Let_def)
  next
    case (Inr out)
    with assms show ?thesis
      by (cases ?r) (auto simp: paddle_to_onnx_def Let_def split: option.splits)
  qed
qed

lemma extract_tar_exn: "fst (extract_tar E tar_path dest w) = Inl e \<Longrightarrow> is_Exception e"
  by (auto simp: extract_tar_def Let_def split: prod.splits option.splits if_splits)

lemma convert_models_result:
  "fst (convert_models E tar_path output_onnx name w) =
     (case extract_tar E tar_path (MODEL_DIR E) (log_info (banner name) w) of
        (Inl e, w2) \<Rightarrow> Inl e
      | (Inr paddle_dir, w2) \<Rightarrow>
          (case paddle_to_onnx E paddle_dir output_onnx w2 of
             (Inl e, w3) \<Rightarrow> Inl e
           | (Inr u, w3) \<Rightarrow> Inr ()))"
  by (simp add: convert_models_def Let_def validate_onnx_returns split: prod.splits sum.splits)

lemma convert_models_exn:
  assumes "fst (convert_models E tar_path output_onnx name w) = Inl e"
  shows "is_Exception e"
proof -
  obtain r1 w2 where x: "extract_tar E tar_path (MODEL_DIR E) (log_info (banner name) w) = (r1, w2)"
    by (cases "extract_tar E tar_path (MODEL_DIR E) (log_info (banner name) w)")
  show ?thesis
  proof (cases r1)
    case (Inl e')
    with x assms have "e' = e" by (simp add: convert_models_result)
    with Inl x show ?thesis
      using extract_tar_exn [of E tar_path "MODEL_DIR E" "log_info (banner name) w" e] by simp
  next
    case (Inr d)
    obtain r2 w3 where p: "paddle_to_onnx E d output_onnx w2 = (r2, w3)"
      by (cases "paddle_to_onnx E d output_onnx w2")
    with Inr x assms have "r2 = Inl e"
      by (cases r2) (simp_all add: convert_models_result)
    with p show ?thesis
      using paddle_to_onnx_exn [of E d output_onnx w2 e] by simp
  qed
qed

lemma main_result:
  "main E w0 =
     (case convert_models E (DET_TAR E) (DET_ONNX E) ''Detection''
             (log_info (''PaddleOCR Model Converter (ONNX only) - '' @ now E @ nl) w0) of
        (Inl e, w2) \<Rightarrow>
          (Inl (SystemExit 1), log_info (''[ERROR] Conversion failed: '' @ exn_str e) w2)
      | (Inr u, w2) \<Rightarrow>
          (case convert_models E (REC_TAR E) (REC_ONNX E) ''Recognition'' w2 of
             (Inl e, w3) \<Rightarrow>
               (Inl (SystemExit 1), log_info (''[ERROR] Conversion failed: '' @ exn_str e) w3)
           | (Inr u, w3) \<Rightarrow>
               (Inr (),
                log_info (''Validation log saved to: '' @ path_str (LOG_FILE E))
                  (log_info (''Output directory: '' @ path_str (OUTPUT_DIR E))
                     (log_info (nl @ ''Conversion complete!'') w3)))))"
proof -
  define w1 where "w1 = log_info (''PaddleOCR Model Converter (ONNX only) - '' @ now E @ nl) w0"
  obtain r1 w2 where c1: "convert_models E (DET_TAR E) (DET_ONNX E) ''Detection'' w1 = (r1, w2)"
    by (cases "convert_models E (DET_TAR E) (DET_ONNX E) ''Detection'' w1")
  obtain r2 w3 where c2: "convert_models E (REC_TAR E) (REC_ONNX E) ''Recognition'' w2 = (r2, w3)"
    by (cases "convert_models E (REC_TAR E) (REC_ONNX E) ''Recognition'' w2")
  have e1: "is_Exception e" if "r1 = Inl e" for e
    using that c1 convert_models_exn [of E "DET_TAR E" "DET_ONNX E" "''Detection''" w1 e] by simp
  have e2: "is_Exception e" if "r2 = Inl e" for e
    using that c2 convert_models_exn [of E "REC_TAR E" "REC_ONNX E" "''Recognition''" w2 e] by simp
  have m: "main E w0 =
     (case try_except
             (case convert_models E (DET_TAR E) (DET_ONNX E) ''Detection'' w1 of
                (Inl e, w2) \<Rightarrow> (Inl e, w2)
              | (Inr u, w2) \<Rightarrow>
                  convert_models E (REC_TAR E) (REC_ONNX E) ''Recognition'' w2)
             (\<lambda>e w. (Inl (SystemExit 1),
                      log_info (''[ERROR] Conversion failed: '' @ exn_str e) w))
      of
        (Inl e, w3) \<Rightarrow> (Inl e, w3)
      | (Inr u, w3) \<Rightarrow>
          (Inr (),
           log_info (''Validation log saved to: '' @ path_str (LOG_FILE E))
             (log_info (''Output directory: '' @ path_str (OUTPUT_DIR E))
                (log_info (nl @ ''Conversion complete!'') w3))))"
    unfolding main_def Let_def w1_def ..
  have "main E w0 =
     (case convert_models E (DET_TAR E) (DET_ONNX E) ''Detection'' w1 of
        (Inl e, w2) \<Rightarrow>
          (Inl (SystemExit 1), log_info (''[ERROR] Conversion failed: '' @ exn_str e) w2)
      | (Inr u, w2) \<Rightarrow>
          (case convert_models E (REC_TAR E) (REC_ONNX E) ''Recognition'' w2 of
             (Inl e, w3) \<Rightarrow>
               (Inl (SystemExit 1), log_info (''[ERROR] Conversion failed: '' @ exn_str e) w3)
           | (Inr u, w3) \<Rightarrow>
               (Inr (),
                log_info (''Validation log saved to: '' @ path_str (LOG_FILE E))
                  (log_info (''Output directory: '' @ path_str (OUTPUT_DIR E))
                     (log_info (nl @ ''Conversion complete!'') w3)))))"
    unfolding m c1
    by (cases r1; cases r2) (simp_all add: c2 try_except_def e1 e2)
  then show ?thesis
    unfolding w1_def .
qed


lemma extract_tar_world:
  assumes "extract_tar E tar_path dest w = (Inr d, w2)"
  shows "d = joinpath dest (path_stem tar_path)
         \<and> (logged w2 = logged w @ [''Already extracted: '' @ path_stem tar_path]
              \<and> calls w2 = calls w \<and> fs w2 = fs w \<and> fs w d \<noteq> None
            \<or> logged w2 = logged w @ [''Extracting '' @ path_name tar_path @ ''...'',
                                       ''Extracted to '' @ path_str d]
              \<and> calls w2 = calls w @ [TarExtract tar_path dest] \<and> fs w d = None)"
  using assms
  by (auto simp: extract_tar_def Let_def log_info_def split: prod.splits option.splits if_splits)

lemma paddle_to_onnx_nonzero:
  assumes run: "subprocess_run E (converter_cmd d out) (fs w) = (Inr result, fs')"
    and rc: "returncode result \<noteq> 0"
  shows "paddle_to_onnx E d out w =
           (Inl (RuntimeError (''Paddle to ONNX conversion failed'' @ nl @ stderr result)),
            w\<lparr>fs := fs',
              logged := logged w @ [''Converting '' @ path_name out @ '' to ONNX...''],
              calls := calls w @ [Subprocess (converter_cmd d out)]\<rparr>)"
proof -
  let ?w1 = "log_info (''Converting '' @ path_name out @ '' to ONNX...'') w"
  have "subprocess_run E (converter_cmd d out) (fs ?w1) = (Inr result, fs')"
    using run by (simp add: log_info_def)
  from run_cmd_nonzero [OF this rc, of "''Paddle to ONNX conversion failed''"]
  show ?thesis
    by (simp add: paddle_to_onnx_def Let_def log_info_def)
qed

lemma paddle_to_onnx_zero:
  assumes run: "subprocess_run E (converter_cmd d out) (fs w) = (Inr result, fs')"
    and rc: "returncode result = 0"
  shows "paddle_to_onnx E d out w =
           (case fs' out of
              None \<Rightarrow>
                (Inl (Exception ''FileNotFoundError''
                        (''[Errno 2] No such file or directory: '' @ [CHR 0x27]
                           @ path_str out @ [CHR 0x27])),
                 w\<lparr>fs := fs',
                   logged := logged w @ [''Converting '' @ path_name out @ '' to ONNX...''],
                   calls := calls w @ [Subprocess (converter_cmd d out)]\<rparr>)
            | Some n \<Rightarrow>
                (Inr (),
                 w\<lparr>fs := fs',
                   logged := logged w @ [''Converting '' @ path_name out @ '' to ONNX...'',
                     ''ONNX model saved: '' @ path_str out @ '' (''
                        @ format_2f (py_truediv_pow2 n 20) @ '' MB)''],
                   calls := calls w @ [Subprocess (converter_cmd d out)]\<rparr>))"
proof -
  let ?w1 = "log_info (''Converting '' @ path_name out @ '' to ONNX...'') w"
  have "subprocess_run E (converter_cmd d out) (fs ?w1) = (Inr result, fs')"
    using run by (simp add: log_info_def)
  from run_cmd_zero [OF this rc, of "''Paddle to ONNX conversion failed''"]
  show ?thesis
    by (simp add: paddle_to_onnx_def Let_def log_info_def split: option.splits)
qed

lemma convert_models_paddle_raises:
  assumes "extract_tar E tar_path (MODEL_DIR E) (log_info (banner name) w) = (Inr d, w2)"
    and "paddle_to_onnx E d out w2 = (Inl e, w3)"
  shows "convert_models E tar_path out name w = (Inl e, w3)"
  using assms by (simp add: convert_models_def Let_def)


lemma main_first_raises:
  assumes "convert_models E (DET_TAR E) (DET_ONNX E) ''Detection''
             (log_info (''PaddleOCR Model Converter (ONNX only) - '' @ now E @ nl) w0)
           = (Inl e, w3)"
  shows "main E w0 =
           (Inl (SystemExit 1), log_info (''[ERROR] Conversion failed: '' @ exn_str e) w3)"
  unfolding main_result assms by simp

lemma convert_models_continues:
  assumes "extract_tar E tar_path (MODEL_DIR E) (log_info (banner name) w) = (Inr d, w2)"
    and "paddle_to_onnx E d out w2 = (Inr (), w3)"
  shows "convert_models E tar_path out name w = (Inr (), snd (validate_onnx E out w3))"
proof -
  have "validate_onnx E out w3 = (Inr (), snd (validate_onnx E out w3))"
    using validate_onnx_returns [of E out w3] by (simp add: prod_eq_iff)
  with assms show ?thesis
    by (simp add: convert_models_def Let_def)
qed

lemma bitlen_bounds: "0 < n \<Longrightarrow> 2 ^ (bitlen n - 1) \<le> n \<and> n < 2 ^ bitlen n"
proof (induction n rule: bitlen.induct)
  case (1 n)
  show ?case
  proof (cases "n div 2 = 0")
    case True
    with "1.prems" have "n = 1" by linarith
    then show ?thesis by (simp add: bitlen.simps)
  next
    case False
    then have pos: "0 < n div 2" by simp
    from "1.prems" have nz: "n \<noteq> 0" by simp
    from "1.IH" [OF nz pos]
    have lo: "2 ^ (bitlen (n div 2) - 1) \<le> n div 2" and hi: "n div 2 < 2 ^ bitlen (n div 2)"
      by simp_all
    have b: "bitlen n = Suc (bitlen (n div 2))"
      using nz by (simp add: bitlen.simps [of n])
    have bp: "0 < bitlen (n div 2)"
      using pos by (simp add: bitlen.simps [of "n div 2"])
    then have e: "bitlen n - 1 = Suc (bitlen (n div 2) - 1)"
      using b by simp
    have "2 ^ (bitlen n - 1) = 2 * 2 ^ (bitlen (n div 2) - 1)"
      unfolding e by simp
    also have "\<dots> \<le> 2 * (n div 2)" using lo by simp
    also have "\<dots> \<le> n" by simp
    finally have l: "2 ^ (bitlen n - 1) \<le> n" .
    have "n < 2 * (n div 2) + 2" by linarith
    also have "\<dots> \<le> 2 * 2 ^ bitlen (n div 2)" using hi by simp
    finally have "n < 2 ^ bitlen n" unfolding b by simp
    with l show ?thesis by simp
  qed
qed

lemma bitlen_le_iff: "bitlen n \<le> k \<longleftrightarrow> n < 2 ^ k"
proof (cases "n = 0")
  case True
  then show ?thesis by (simp add: bitlen.simps)
next
  case False
  then have pos: "0 < n" by simp
  from bitlen_bounds [OF pos]
  have lo: "2 ^ (bitlen n - 1) \<le> n" and hi: "n < 2 ^ bitlen n" by simp_all
  have bp: "0 < bitlen n" using False by (simp add: bitlen.simps [of n])
  show ?thesis
  proof
    assume "bitlen n \<le> k"
    then have "(2::nat) ^ bitlen n \<le> 2 ^ k" by (simp add: power_increasing)
    with hi show "n < 2 ^ k" by linarith
  next
    assume a: "n < 2 ^ k"
    show "bitlen n \<le> k"
    proof (rule ccontr)
      assume "\<not> bitlen n \<le> k"
      then have "k \<le> bitlen n - 1" by simp
      then have "(2::nat) ^ k \<le> 2 ^ (bitlen n - 1)" by (simp add: power_increasing)
      with lo a show False by linarith
    qed
  qed
qed

lemma round_half_even_div_error:
  assumes "0 < b"
  shows "2 * \<bar>int (round_half_even_div a b * b) - int a\<bar> \<le> int b"
proof -
  define q where "q = a div b"
  define r where "r = a mod b"
  have a: "a = q * b + r" by (simp add: q_def r_def)
  have rb: "r < b" using assms by (simp add: r_def)
  show ?thesis
  proof (cases "2 * r > b \<or> (2 * r = b \<and> odd q)")
    case True
    then have "round_half_even_div a b = q + 1"
      by (simp add: round_half_even_div_def Let_def q_def r_def)
    then have "int (round_half_even_div a b * b) - int a = int b - int r"
      by (simp add: a algebra_simps)
    with True rb show ?thesis by auto
  next
    case False
    then have "round_half_even_div a b = q"
      by (simp add: round_half_even_div_def Let_def q_def r_def)
    then have "int (round_half_even_div a b * b) - int a = - int r"
      by (simp add: a)
    with False show ?thesis by auto
  qed
qed

lemma round53_exact: "n < 2 ^ 53 \<Longrightarrow> round53 n = n"
  by (simp add: round53_def bitlen_le_iff)

lemma round53_error: "2 ^ 53 * \<bar>int (round53 n) - int n\<bar> \<le> int n"
proof (cases "bitlen n \<le> 53")
  case True
  then show ?thesis by (simp add: round53_def)
next
  case False
  define s where "s = bitlen n - 53"
  have sp: "0 < s" using False by (simp add: s_def)
  have bl: "bitlen n = s + 53" using False by (simp add: s_def)
  have npos: "0 < n" using False by (cases "n = 0") (simp_all add: bitlen.simps)
  have "bitlen n - 1 = s + 52" by (simp add: bl)
  with bitlen_bounds [OF npos] have "2 ^ (s + 52) \<le> n" by metis
  then have lo: "(2::int) ^ (s + 52) \<le> int n"
    by (metis of_nat_le_iff of_nat_numeral of_nat_power)
  have r: "round53 n = round_half_even_div n (2 ^ s) * 2 ^ s"
    using False by (simp add: round53_def Let_def s_def)
  have "2 * \<bar>int (round53 n) - int n\<bar> \<le> int (2 ^ s)"
    unfolding r by (rule round_half_even_div_error) simp
  then have "2 * \<bar>int (round53 n) - int n\<bar> \<le> 2 ^ s" by simp
  then have "2 ^ 52 * (2 * \<bar>int (round53 n) - int n\<bar>) \<le> 2 ^ 52 * (2::int) ^ s"
    by (rule mult_left_mono) simp
  then have "2 ^ 53 * \<bar>int (round53 n) - int n\<bar> \<le> (2::int) ^ (s + 52)"
    by (simp add: power_add mult.commute)
  with lo show ?thesis by linarith
qed


lemma py_truediv_pow2_error:
  "\<bar>py_truediv_pow2 n k - of_nat n / 2 ^ k\<bar> \<le> of_nat n / 2 ^ k / 2 ^ 53"
proof -
  define d where "d = \<bar>int (round53 n) - int n\<bar>"
  have "py_truediv_pow2 n k - of_nat n / 2 ^ k
          = (of_int (int (round53 n) - int n) :: rat) / 2 ^ k"
    by (simp add: py_truediv_pow2_def diff_divide_distrib)
  then have l: "\<bar>py_truediv_pow2 n k - of_nat n / 2 ^ k\<bar> = (of_int d :: rat) / 2 ^ k"
    by (simp add: d_def)
  have "2 ^ 53 * d \<le> int n"
    unfolding d_def by (rule round53_error)
  then have "(of_int (2 ^ 53 * d) :: rat) \<le> of_int (int n)"
    by (simp only: of_int_le_iff)
  then have "(2 ^ 53 * of_int d :: rat) \<le> of_nat n"
    by simp
  then have "(of_int d :: rat) \<le> of_nat n / 2 ^ 53"
    by (simp add: pos_le_divide_eq mult.commute)
  then have "(of_int d :: rat) / 2 ^ k \<le> of_nat n / 2 ^ 53 / 2 ^ k"
    by (rule divide_right_mono) simp
  also have "(of_nat n :: rat) / 2 ^ 53 / 2 ^ k = of_nat n / 2 ^ k / 2 ^ 53"
    by (simp add: mult.commute)
  finally show ?thesis
    unfolding l .
qed

lemma py_truediv_pow2_exact: "n < 2 ^ 53 \<Longrightarrow> py_truediv_pow2 n k = of_nat n / 2 ^ k"
  by (simp add: py_truediv_pow2_def round53_exact)

lemma py_truediv_pow2_nonneg: "0 \<le> py_truediv_pow2 n k"
  by (simp add: py_truediv_pow2_def)

lemma hundredths_error:
  assumes "0 \<le> x"
  shows "\<bar>of_nat (hundredths x) / 100 - x\<bar> \<le> 1 / 200"
proof -
  define y where "y = x * 100"
  define f where "f = nat \<lfloor>y\<rfloor>"
  define r where "r = y - of_nat f"
  have y0: "0 \<le> y" using assms by (simp add: y_def)
  then have ff: "(of_nat f :: rat) = of_int \<lfloor>y\<rfloor>"
    by (simp add: f_def)
  have r0: "0 \<le> r" unfolding r_def ff by linarith
  have r1: "r < 1" unfolding r_def ff by linarith
  have x: "x = y / 100" by (simp add: y_def)
  have h: "hundredths x = (if r > 1 / 2 \<or> (r = 1 / 2 \<and> odd f) then f + 1 else f)"
    unfolding hundredths_def Let_def r_def f_def y_def ..
  have "\<bar>of_nat (hundredths x) - y\<bar> \<le> 1 / 2"
  proof (cases "r > 1 / 2 \<or> (r = 1 / 2 \<and> odd f)")
    case True
    then have "hundredths x = f + 1"
      unfolding h by (rule if_P)
    then have "of_nat (hundredths x) - y = 1 - r" by (simp add: r_def)
    moreover from True have "1 / 2 \<le> r" by auto
    ultimately show ?thesis using r1 by simp
  next
    case False
    then have "hundredths x = f"
      unfolding h by (rule if_not_P)
    then have "of_nat (hundredths x) - y = - r" by (simp add: r_def)
    moreover from False have "r \<le> 1 / 2" by auto
    ultimately show ?thesis using r0 by simp
  qed
  then have "\<bar>of_nat (hundredths x) - y\<bar> / 100 \<le> 1 / 2 / 100"
    by (simp add: divide_right_mono)
  moreover have "\<bar>of_nat (hundredths x) / 100 - x\<bar> = \<bar>of_nat (hundredths x) - y\<bar> / 100"
    unfolding x by (simp add: diff_divide_distrib [symmetric])
  ultimately show ?thesis by simp
qed

lemma str_nat_digit: "d < 10 \<Longrightarrow> str_nat d = [''0123456789'' ! d]"
  by (subst str_nat.simps) simp

lemma format_2f_shape:
  "format_2f x =
     str_nat (hundredths x div 100) @ ''.''
       @ [''0123456789'' ! (hundredths x mod 100 div 10), ''0123456789'' ! (hundredths x mod 10)]"
proof -
  have a: "hundredths x mod 100 div 10 < 10" by simp
  have b: "hundredths x mod 10 < 10" by simp
  show ?thesis
    by (simp add: format_2f_def Let_def str_nat_digit [OF a] str_nat_digit [OF b])
qed


lemma format_2f_example: "format_2f (py_truediv_pow2 2621440 20) = ''2.50''"
  by (simp add: format_2f_def py_truediv_pow2_def round53_def hundredths_def str_nat.simps
        bitlen.simps)

lemmas example_defs =
  example_env_def app_dir_def world0_def converter_fails_def converter_writes_def
  converter_silent_def tar_unpacks_def tar_elsewhere_def loads_xy_def load_fails_def model_xy_def
  MODEL_DIR_def OUTPUT_DIR_def OUTPUT_VALIDATE_DIR_def LOG_FILE_def DET_TAR_def REC_TAR_def
  DET_ONNX_def REC_ONNX_def

subsection \<open>Claims\<close>

text \<open>
  C4. When the external process of a converter invocation exits with a non-zero status,
  \<open>run_cmd\<close> raises a \<open>RuntimeError\<close> whose message is the supplied error message, a
  newline and the captured standard-error text, unchanged; so the message holds the
  standard-error text verbatim.
\<close>

theorem run_cmd_failure_carries_stderr:
  assumes "subprocess_run E cmd (fs w) = (Inr result, fs')" and "returncode result \<noteq> 0"
  shows "fst (run_cmd E cmd error_msg w) = Inl (RuntimeError (error_msg @ nl @ stderr result))
         \<and> sublist (stderr result) (exn_str (RuntimeError (error_msg @ nl @ stderr result)))
         \<and> prefix error_msg (exn_str (RuntimeError (error_msg @ nl @ stderr result)))"
proof -
  have "sublist (stderr result) ((error_msg @ nl) @ stderr result @ [])"
    by (rule sublist_appendI)
  then show ?thesis
    using assms by (simp add: run_cmd_def)
qed

theorem run_cmd_failure_carries_stderr_witness:
  "fst (run_cmd (example_env converter_fails tar_unpacks loads_xy) [''paddle2onnx'']
          ''Paddle to ONNX conversion failed'' world0)
     = Inl (RuntimeError (''Paddle to ONNX conversion failed'' @ nl @ ''missing op''))
   \<and> sublist ''missing op''
       (exn_str (RuntimeError (''Paddle to ONNX conversion failed'' @ nl @ ''missing op'')))"
  using run_cmd_failure_carries_stderr
          [of "example_env converter_fails tar_unpacks loads_xy" "[''paddle2onnx'']" world0
              "\<lparr>returncode = 1, stdout = [], stderr = ''missing op''\<rparr>" "fs world0"
              "''Paddle to ONNX conversion failed''"]
  by (simp add: example_env_def converter_fails_def)


text \<open>
  C7. For a model file that loads and passes the schema check, \<open>validate_onnx\<close>
  returns normally and appends to the log, in this order: the \<open>Validating\<close> record,
  the \<open>[OK]\<close> confirmation, the record \<open>Inputs:\<close>, one record (name and type) for
  each declared graph input in their order, the record \<open>Outputs:\<close>, and one record for
  each declared graph output in their order.
\<close>

theorem validate_onnx_success_log:
  assumes "onnx_load E (path_str onnx_file) (fs w) = Inr model" and "check_model E model = None"
  shows "fst (validate_onnx E onnx_file w) = Inr ()
         \<and> logged (snd (validate_onnx E onnx_file w)) =
             logged w @ [''Validating '' @ path_name onnx_file @ ''...'',
                         ''[OK] '' @ path_name onnx_file @ '' is valid'',
                         ''Inputs:'']
               @ map (\<lambda>i. ''  '' @ vi_name i @ '': '' @ vi_type i) (graph_input model)
               @ [''Outputs:'']
               @ map (\<lambda>i. ''  '' @ vi_name i @ '': '' @ vi_type i) (graph_output model)"
proof -
  have "value_info_entry = (\<lambda>i. ''  '' @ vi_name i @ '': '' @ vi_type i)"
    by (rule ext) (simp add: value_info_entry_def)
  then show ?thesis
    using validate_onnx_ok_records [OF assms] validate_onnx_returns [of E onnx_file w]
    by simp
qed

theorem validate_onnx_success_log_witness:
  "logged (snd (validate_onnx env_good (DET_ONNX env_good) world0)) =
     [''Validating det.onnx...'', ''[OK] det.onnx is valid'',
      ''Inputs:'', ''  x: tensor_type'', ''Outputs:'', ''  y: tensor_type'']"
  using validate_onnx_success_log [of env_good "DET_ONNX env_good" world0 model_xy]
  by (simp add: env_good_def example_defs)

text \<open>
  C8. Every converter invocation made by \<open>paddle_to_onnx\<close> starts the process with the
  same argument list: the program \<open>paddle2onnx\<close>, the input model directory, the two
  fixed input file names \<open>inference.pdmodel\<close> and \<open>inference.pdiparams\<close>, the output
  file path, the operator-set version 11 and the checker flag \<open>True\<close>. It is the only
  external call the function makes.
\<close>

theorem converter_arguments_fixed:
  "calls (snd (paddle_to_onnx E paddle_dir onnx_out w)) =
     calls w @
     [Subprocess
        [''paddle2onnx'',
         ''--model_dir'', path_str paddle_dir,
         ''--model_filename'', ''inference.pdmodel'',
         ''--params_filename'', ''inference.pdiparams'',
         ''--save_file'', path_str onnx_out,
         ''--opset_version'', ''11'',
         ''--enable_onnx_checker'', ''True'']]"
proof -
  have "str_nat OPSET = ''11''"
    by (simp add: OPSET_def str_nat.simps)
  then show ?thesis
    by (simp add: paddle_to_onnx_calls converter_cmd_def)
qed

text \<open>
  C9. The path returned by \<open>extract_tar\<close>, whenever it returns one, is the destination
  joined with the stem of the archive's file name: a function of the two arguments alone.
  When the directory was not there and the extraction raised nothing, that path is
  returned whatever file system the extraction left behind, so the function does not
  check that the path exists afterwards.
\<close>

theorem extract_tar_path_from_arguments:
  "(case fst (extract_tar E tar_path dest w) of
      Inl e \<Rightarrow> True
    | Inr p \<Rightarrow> p = joinpath dest (path_stem tar_path))
   \<and> (fs w (joinpath dest (path_stem tar_path)) = None
        \<and> tar_extractall E tar_path dest (fs w) = (None, fs')
      \<longrightarrow> fst (extract_tar E tar_path dest w) = Inr (joinpath dest (path_stem tar_path))
          \<and> fs (snd (extract_tar E tar_path dest w)) = fs')"
  by (simp add: extract_tar_def Let_def log_info_def split: prod.splits option.splits)

theorem extract_tar_path_from_arguments_witness:
  "fst (extract_tar (example_env converter_silent tar_elsewhere loads_xy)
          (Path True [''app'', ''PP_OCR_models'', ''ch_PP-OCRv4_det_infer.tar''])
          (Path True [''app'', ''PP_OCR_models'']) world0)
     = Inr (Path True [''app'', ''PP_OCR_models'', ''ch_PP-OCRv4_det_infer''])
   \<and> fs (snd (extract_tar (example_env converter_silent tar_elsewhere loads_xy)
          (Path True [''app'', ''PP_OCR_models'', ''ch_PP-OCRv4_det_infer.tar''])
          (Path True [''app'', ''PP_OCR_models'']) world0))
        (Path True [''app'', ''PP_OCR_models'', ''ch_PP-OCRv4_det_infer'']) = None"
  using extract_tar_path_from_arguments
          [where E = "example_env converter_silent tar_elsewhere loads_xy"
             and tar_path = "Path True [''app'', ''PP_OCR_models'', ''ch_PP-OCRv4_det_infer.tar'']"
             and dest = "Path True [''app'', ''PP_OCR_models'']" and w = world0
             and fs' = "(fs world0)(Path True [''app'', ''PP_OCR_models'', ''inference''] \<mapsto> 4096)"]
  by (simp add: example_defs)

text \<open>
  C6. The exit status of the process is 0 when the conversions of both model kinds return
  without an exception, and 1 when the conversion of either kind raises one. The
  conversion of a kind raises exactly when its extraction or its converter step
  (\<open>paddle_to_onnx\<close>) raises; validation never does.
\<close>

theorem main_exit_status:
  "exit_status (fst (main E w0)) =
     (case convert_models E (DET_TAR E) (DET_ONNX E) ''Detection''
             (log_info (''PaddleOCR Model Converter (ONNX only) - '' @ now E @ nl) w0) of
        (Inl e, w2) \<Rightarrow> 1
      | (Inr u, w2) \<Rightarrow>
          (case convert_models E (REC_TAR E) (REC_ONNX E) ''Recognition'' w2 of
             (Inl e, w3) \<Rightarrow> 1
           | (Inr u, w3) \<Rightarrow> 0))
   \<and> fst (convert_models E tar_path output_onnx name w) =
       (case extract_tar E tar_path (MODEL_DIR E) (log_info (banner name) w) of
          (Inl e, w2) \<Rightarrow> Inl e
        | (Inr paddle_dir, w2) \<Rightarrow>
            (case paddle_to_onnx E paddle_dir output_onnx w2 of
               (Inl e, w3) \<Rightarrow> Inl e
             | (Inr u, w3) \<Rightarrow> Inr ()))"
  unfolding main_result
  by (simp add: convert_models_result split: prod.splits sum.splits)

text \<open>
  C1. If extraction for the first model kind (Detection) returns and the converter process
  started for it exits with a non-zero status, then the process exits with status 1; the
  last log record is \<open>[ERROR] Conversion failed: Paddle to ONNX conversion failed\<close>,
  a newline and the captured standard-error text, so that record holds the standard-error
  text; and the log records and external calls of the whole run are those of the header, of
  the Detection banner, of the Detection extraction and of the one Detection converter
  call, so nothing of the Recognition conversion is begun. (A log line is a log record here:
  the message of one logging call; the standard-error text follows a newline inside it.)
\<close>

theorem detection_failure_aborts_run:
  assumes ex: "extract_tar E (DET_TAR E) (MODEL_DIR E)
                 (log_info (banner ''Detection'')
                    (log_info (''PaddleOCR Model Converter (ONNX only) - '' @ now E @ nl) w0))
               = (Inr d, w2)"
    and run: "subprocess_run E (converter_cmd d (DET_ONNX E)) (fs w2) = (Inr result, fs')"
    and rc: "returncode result \<noteq> 0"
  shows "exit_status (fst (main E w0)) = 1
         \<and> logged (snd (main E w0)) =
             logged w2 @
             [''Converting det.onnx to ONNX...'',
              ''[ERROR] Conversion failed: Paddle to ONNX conversion failed'' @ nl
                 @ stderr result]
         \<and> sublist (stderr result) (last (logged (snd (main E w0))))
         \<and> calls (snd (main E w0)) = calls w2 @ [Subprocess (converter_cmd d (DET_ONNX E))]
         \<and> (logged w2 =
               logged w0 @
               [''PaddleOCR Model Converter (ONNX only) - '' @ now E @ nl,
                banner ''Detection'',
                ''Already extracted: ch_PP-OCRv4_det_infer'']
             \<and> calls w2 = calls w0
           \<or> logged w2 =
               logged w0 @
               [''PaddleOCR Model Converter (ONNX only) - '' @ now E @ nl,
                banner ''Detection'',
                ''Extracting ch_PP-OCRv4_det_infer.tar...'',
                ''Extracted to '' @ path_str d]
             \<and> calls w2 = calls w0 @ [TarExtract (DET_TAR E) (MODEL_DIR E)])"
proof -
  define hdr where "hdr = ''PaddleOCR Model Converter (ONNX only) - '' @ now E @ nl"
  define err where "err = ''Paddle to ONNX conversion failed'' @ nl @ stderr result"
  define w3 where
    "w3 = w2\<lparr>fs := fs', logged := logged w2 @ [''Converting det.onnx to ONNX...''],
             calls := calls w2 @ [Subprocess (converter_cmd d (DET_ONNX E))]\<rparr>"
  have p: "paddle_to_onnx E d (DET_ONNX E) w2 = (Inl (RuntimeError err), w3)"
    using paddle_to_onnx_nonzero [OF run rc] by (simp add: DET_ONNX_name w3_def err_def)
  have c: "convert_models E (DET_TAR E) (DET_ONNX E) ''Detection''
             (log_info (''PaddleOCR Model Converter (ONNX only) - '' @ now E @ nl) w0)
           = (Inl (RuntimeError err), w3)"
    by (rule convert_models_paddle_raises [OF ex p])
  have m: "main E w0 =
             (Inl (SystemExit 1),
              log_info (''[ERROR] Conversion failed: '' @ exn_str (RuntimeError err)) w3)"
    by (rule main_first_raises [OF c])
  have l: "logged (snd (main E w0)) =
             logged w2 @ [''Converting det.onnx to ONNX...'',
                          ''[ERROR] Conversion failed: '' @ err]"
    by (simp add: m log_info_def w3_def)
  have "sublist (stderr result)
          ((''[ERROR] Conversion failed: Paddle to ONNX conversion failed'' @ nl)
             @ stderr result @ [])"
    by (rule sublist_appendI)
  then have s: "sublist (stderr result) (last (logged (snd (main E w0))))"
    by (simp add: l err_def)
  have k: "calls (snd (main E w0)) = calls w2 @ [Subprocess (converter_cmd d (DET_ONNX E))]"
    by (simp add: m log_info_def w3_def)
  have x: "exit_status (fst (main E w0)) = 1"
    by (simp add: m)
  have w: "logged w2 = logged w0 @ [hdr, banner ''Detection'',
                                     ''Already extracted: ch_PP-OCRv4_det_infer'']
             \<and> calls w2 = calls w0
           \<or> logged w2 = logged w0 @ [hdr, banner ''Detection'',
                                     ''Extracting ch_PP-OCRv4_det_infer.tar...'',
                                     ''Extracted to '' @ path_str d]
             \<and> calls w2 = calls w0 @ [TarExtract (DET_TAR E) (MODEL_DIR E)]"
    using extract_tar_world [OF ex]
    by (auto simp: DET_TAR_stem DET_TAR_name log_info_def hdr_def)
  from x l s k w show ?thesis
    by (simp add: err_def hdr_def)
qed

theorem detection_failure_aborts_run_witness:
  "exit_status (fst (main env_converter_fails world0)) = 1
   \<and> logged (snd (main env_converter_fails world0)) =
       [''PaddleOCR Model Converter (ONNX only) - 2024-01-01 00:00:00.000000'' @ nl,
        banner ''Detection'',
        ''Extracting ch_PP-OCRv4_det_infer.tar...'',
        ''Extracted to /app/PP_OCR_models/ch_PP-OCRv4_det_infer'',
        ''Converting det.onnx to ONNX...'',
        ''[ERROR] Conversion failed: Paddle to ONNX conversion failed'' @ nl @ ''missing op'']
   \<and> calls (snd (main env_converter_fails world0)) =
       [TarExtract (Path True [''app'', ''PP_OCR_models'', ''ch_PP-OCRv4_det_infer.tar''])
                   (Path True [''app'', ''PP_OCR_models'']),
        Subprocess (converter_cmd (Path True [''app'', ''PP_OCR_models'', ''ch_PP-OCRv4_det_infer''])
                      (Path True [''app'', ''output'', ''det.onnx'']))]"
proof -
  define w1 where
    "w1 = log_info (banner ''Detection'')
            (log_info (''PaddleOCR Model Converter (ONNX only) - ''
                         @ now env_converter_fails @ nl) world0)"
  define d where "d = Path True [''app'', ''PP_OCR_models'', ''ch_PP-OCRv4_det_infer'']"
  define w2 where
    "w2 = snd (extract_tar env_converter_fails (DET_TAR env_converter_fails)
                 (MODEL_DIR env_converter_fails) w1)"
  have ex: "extract_tar env_converter_fails (DET_TAR env_converter_fails)
              (MODEL_DIR env_converter_fails) w1 = (Inr d, w2)"
    by (simp add: w2_def w1_def d_def prod_eq_iff extract_tar_def Let_def log_info_def
          env_converter_fails_def example_defs)
  have run: "subprocess_run env_converter_fails
               (converter_cmd d (DET_ONNX env_converter_fails)) (fs w2)
             = (Inr \<lparr>returncode = 1, stdout = [], stderr = ''missing op''\<rparr>, fs w2)"
    by (simp add: env_converter_fails_def example_env_def converter_fails_def)
  have w2: "logged w2 =
              [''PaddleOCR Model Converter (ONNX only) - 2024-01-01 00:00:00.000000'' @ nl,
               banner ''Detection'',
               ''Extracting ch_PP-OCRv4_det_infer.tar...'',
               ''Extracted to /app/PP_OCR_models/ch_PP-OCRv4_det_infer'']
            \<and> calls w2 =
              [TarExtract (Path True [''app'', ''PP_OCR_models'', ''ch_PP-OCRv4_det_infer.tar''])
                          (Path True [''app'', ''PP_OCR_models''])]"
    by (simp add: w2_def w1_def extract_tar_def Let_def log_info_def
          env_converter_fails_def example_defs)
  have o: "DET_ONNX env_converter_fails = Path True [''app'', ''output'', ''det.onnx'']"
    by (simp add: env_converter_fails_def example_defs)
  show ?thesis
    using detection_failure_aborts_run [OF ex [unfolded w1_def] run]
    by (simp add: w2 d_def o)
qed


text \<open>
  C2. For every model file path \<open>validate_onnx\<close> returns normally, whatever the load
  and the schema check do. When the load raises or the check rejects the model, it appends
  the \<open>Validating\<close> record and one \<open>[ERROR]\<close> record that names the file and carries
  the exception's message. So once extraction and the converter step of a model kind have
  returned, \<open>convert_models\<close> returns normally too, with the world \<open>validate_onnx\<close>
  leaves, and the run goes on.
\<close>

theorem validate_onnx_contains_failures:
  "fst (validate_onnx E onnx_file w) = Inr ()
   \<and> (onnx_load E (path_str onnx_file) (fs w) = Inl (c, m)
        \<or> (\<exists>model. onnx_load E (path_str onnx_file) (fs w) = Inr model
                     \<and> check_model E model = Some (c, m))
      \<longrightarrow> logged (snd (validate_onnx E onnx_file w)) =
            logged w @ [''Validating '' @ path_name onnx_file @ ''...'',
                        ''[ERROR] '' @ path_name onnx_file @ '' failed validation: '' @ m])
   \<and> (extract_tar E tar_path (MODEL_DIR E) (log_info (banner name) w0) = (Inr d, w2)
        \<and> paddle_to_onnx E d onnx_file w2 = (Inr (), w)
      \<longrightarrow> convert_models E tar_path onnx_file name w0
            = (Inr (), snd (validate_onnx E onnx_file w)))"
  using validate_onnx_returns [of E onnx_file w]
    validate_onnx_failure_logged [of E onnx_file w c m]
    convert_models_continues [of E tar_path name w0 d w2 onnx_file w]
  by blast

theorem validate_onnx_contains_failures_witness:
  "fst (validate_onnx env_load_fails (DET_ONNX env_load_fails) world0) = Inr ()
   \<and> logged (snd (validate_onnx env_load_fails (DET_ONNX env_load_fails) world0)) =
       [''Validating det.onnx...'',
        ''[ERROR] det.onnx failed validation: Error parsing message'']
   \<and> fst (convert_models env_load_fails (DET_TAR env_load_fails) (DET_ONNX env_load_fails)
            ''Detection'' world0) = Inr ()"
proof -
  define d where "d = Path True [''app'', ''PP_OCR_models'', ''ch_PP-OCRv4_det_infer'']"
  define w2 where
    "w2 = snd (extract_tar env_load_fails (DET_TAR env_load_fails) (MODEL_DIR env_load_fails)
                 (log_info (banner ''Detection'') world0))"
  define w3 where "w3 = snd (paddle_to_onnx env_load_fails d (DET_ONNX env_load_fails) w2)"
  have ex: "extract_tar env_load_fails (DET_TAR env_load_fails) (MODEL_DIR env_load_fails)
              (log_info (banner ''Detection'') world0) = (Inr d, w2)"
    by (simp add: w2_def d_def prod_eq_iff extract_tar_def Let_def log_info_def
          env_load_fails_def example_defs)
  have run: "subprocess_run env_load_fails (converter_cmd d (DET_ONNX env_load_fails)) (fs w2)
             = (Inr \<lparr>returncode = 0, stdout = [], stderr = []\<rparr>,
                (fs w2)(Path True [''app'', ''output'', ''det.onnx''] \<mapsto> 2621440))"
    by (simp add: env_load_fails_def example_defs converter_cmd_def d_def)
  have p: "paddle_to_onnx env_load_fails d (DET_ONNX env_load_fails) w2 = (Inr (), w3)"
    using paddle_to_onnx_zero [OF run]
    by (simp add: w3_def prod_eq_iff env_load_fails_def example_defs)
  have l: "onnx_load env_load_fails (path_str (DET_ONNX env_load_fails)) (fs world0)
           = Inl (''DecodeError'', ''Error parsing message'')"
    by (simp add: env_load_fails_def example_defs)
  have l3: "onnx_load env_load_fails (path_str (DET_ONNX env_load_fails)) (fs w3)
           = Inl (''DecodeError'', ''Error parsing message'')"
    by (simp add: env_load_fails_def example_defs)
  have n: "path_name (DET_ONNX env_load_fails) = ''det.onnx''"
    by (rule DET_ONNX_name)
  show ?thesis
    using validate_onnx_contains_failures
            [where E = env_load_fails and onnx_file = "DET_ONNX env_load_fails"
               and w = world0 and c = "''DecodeError''" and m = "''Error parsing message''"]
          validate_onnx_contains_failures
            [where E = env_load_fails and onnx_file = "DET_ONNX env_load_fails"
               and w = w3 and c = "''DecodeError''" and m = "''Error parsing message''"
               and tar_path = "DET_TAR env_load_fails" and name = "''Detection''"
               and ?w0.0 = world0 and d = d and ?w2.0 = w2]
          ex p l l3
    by (simp add: n world0_def)
qed

text \<open>
  C10. If the converter process exits with status 0 and nothing is at the output path
  afterwards, \<open>paddle_to_onnx\<close> raises \<open>FileNotFoundError\<close> when it asks for the
  file's size; for either model kind the orchestrator treats it as fatal: the last log
  record is \<open>[ERROR] Conversion failed:\<close> with that error's message and the exit
  status is 1.
\<close>

theorem missing_output_is_fatal:
  assumes ex: "extract_tar E tar_path (MODEL_DIR E) (log_info (banner name) w) = (Inr d, w2)"
    and run: "subprocess_run E (converter_cmd d out) (fs w2) = (Inr result, fs')"
    and rc: "returncode result = 0"
    and nofile: "fs' out = None"
    and pos: "(tar_path, out, name, w) =
                (DET_TAR E, DET_ONNX E, ''Detection'',
                 log_info (''PaddleOCR Model Converter (ONNX only) - '' @ now E @ nl) w0)
              \<or> (tar_path, out, name) = (REC_TAR E, REC_ONNX E, ''Recognition'')
                \<and> convert_models E (DET_TAR E) (DET_ONNX E) ''Detection''
                     (log_info (''PaddleOCR Model Converter (ONNX only) - '' @ now E @ nl) w0)
                   = (Inr (), w)"
  shows "fst (paddle_to_onnx E d out w2) =
           Inl (Exception ''FileNotFoundError''
                  (''[Errno 2] No such file or directory: '' @ [CHR 0x27] @ path_str out
                     @ [CHR 0x27]))
         \<and> exit_status (fst (main E w0)) = 1
         \<and> last (logged (snd (main E w0))) =
             ''[ERROR] Conversion failed: [Errno 2] No such file or directory: '' @ [CHR 0x27]
               @ path_str out @ [CHR 0x27]"
proof -
  define e where
    "e = Exception ''FileNotFoundError''
           (''[Errno 2] No such file or directory: '' @ [CHR 0x27] @ path_str out @ [CHR 0x27])"
  define w3 where
    "w3 = w2\<lparr>fs := fs',
             logged := logged w2 @ [''Converting '' @ path_name out @ '' to ONNX...''],
             calls := calls w2 @ [Subprocess (converter_cmd d out)]\<rparr>"
  have p: "paddle_to_onnx E d out w2 = (Inl e, w3)"
    using paddle_to_onnx_zero [OF run rc] nofile by (simp add: e_def w3_def)
  have c: "convert_models E tar_path out name w = (Inl e, w3)"
    by (rule convert_models_paddle_raises [OF ex p])
  have m: "main E w0 =
             (Inl (SystemExit 1), log_info (''[ERROR] Conversion failed: '' @ exn_str e) w3)"
    using pos
  proof
    assume "(tar_path, out, name, w) =
              (DET_TAR E, DET_ONNX E, ''Detection'',
               log_info (''PaddleOCR Model Converter (ONNX only) - '' @ now E @ nl) w0)"
    with c have "convert_models E (DET_TAR E) (DET_ONNX E) ''Detection''
             (log_info (''PaddleOCR Model Converter (ONNX only) - '' @ now E @ nl) w0)
           = (Inl e, w3)"
      by blast
    then show ?thesis by (rule main_first_raises)
  next
    assume a: "(tar_path, out, name) = (REC_TAR E, REC_ONNX E, ''Recognition'')
                \<and> convert_models E (DET_TAR E) (DET_ONNX E) ''Detection''
                     (log_info (''PaddleOCR Model Converter (ONNX only) - '' @ now E @ nl) w0)
                   = (Inr (), w)"
    with c have c2: "convert_models E (REC_TAR E) (REC_ONNX E) ''Recognition'' w = (Inl e, w3)"
      by blast
    from a have c1: "convert_models E (DET_TAR E) (DET_ONNX E) ''Detection''
                     (log_info (''PaddleOCR Model Converter (ONNX only) - '' @ now E @ nl) w0)
                   = (Inr (), w)"
      by blast
    show ?thesis unfolding main_result c1 by (simp add: c2)
  qed
  from p m show ?thesis
    by (simp add: e_def log_info_def)
qed


theorem missing_output_is_fatal_witness:
  "exit_status (fst (main env_no_output world0)) = 1
   \<and> last (logged (snd (main env_no_output world0))) =
       ''[ERROR] Conversion failed: [Errno 2] No such file or directory: '' @ [CHR 0x27]
          @ ''/app/output/det.onnx'' @ [CHR 0x27]"
proof -
  define w1 where
    "w1 = log_info (''PaddleOCR Model Converter (ONNX only) - '' @ now env_no_output @ nl) world0"
  define d where "d = Path True [''app'', ''PP_OCR_models'', ''ch_PP-OCRv4_det_infer'']"
  define w2 where
    "w2 = snd (extract_tar env_no_output (DET_TAR env_no_output) (MODEL_DIR env_no_output)
                 (log_info (banner ''Detection'') w1))"
  have ex: "extract_tar env_no_output (DET_TAR env_no_output) (MODEL_DIR env_no_output)
              (log_info (banner ''Detection'') w1) = (Inr d, w2)"
    by (simp add: w2_def w1_def d_def prod_eq_iff extract_tar_def Let_def log_info_def
          env_no_output_def example_defs)
  have run: "subprocess_run env_no_output (converter_cmd d (DET_ONNX env_no_output)) (fs w2)
             = (Inr \<lparr>returncode = 0, stdout = [], stderr = []\<rparr>, fs w2)"
    by (simp add: env_no_output_def example_env_def converter_silent_def)
  have rc: "returncode \<lparr>returncode = 0, stdout = [], stderr = []\<rparr> = 0"
    by simp
  have nofile: "fs w2 (DET_ONNX env_no_output) = None"
    by (simp add: w2_def w1_def extract_tar_def Let_def log_info_def
          env_no_output_def example_defs)
  have pos: "(DET_TAR env_no_output, DET_ONNX env_no_output, ''Detection'', w1) =
                (DET_TAR env_no_output, DET_ONNX env_no_output, ''Detection'',
                 log_info (''PaddleOCR Model Converter (ONNX only) - ''
                             @ now env_no_output @ nl) world0)
              \<or> (DET_TAR env_no_output, DET_ONNX env_no_output, ''Detection'')
                   = (REC_TAR env_no_output, REC_ONNX env_no_output, ''Recognition'')
                \<and> convert_models env_no_output (DET_TAR env_no_output) (DET_ONNX env_no_output)
                     ''Detection''
                     (log_info (''PaddleOCR Model Converter (ONNX only) - ''
                                  @ now env_no_output @ nl) world0)
                   = (Inr (), w1)"
    unfolding w1_def by (rule disjI1) (rule refl)
  have o: "path_str (DET_ONNX env_no_output) = ''/app/output/det.onnx''"
    by (simp add: env_no_output_def example_defs)
  from missing_output_is_fatal [OF ex run rc nofile pos]
  show ?thesis
    unfolding o by blast
qed

text \<open>
  C3, as stated, fails: an archive that unpacks into a directory not named after its stem
  is extracted again by a second invocation. Here both invocations return the same path
  and the extraction runs twice.
\<close>

theorem extract_tar_twice_counterexample:
  "fst (extract_tar env_unpacks_elsewhere (DET_TAR env_unpacks_elsewhere)
          (MODEL_DIR env_unpacks_elsewhere) world0)
     = Inr (Path True [''app'', ''PP_OCR_models'', ''ch_PP-OCRv4_det_infer''])
   \<and> fst (extract_tar env_unpacks_elsewhere (DET_TAR env_unpacks_elsewhere)
            (MODEL_DIR env_unpacks_elsewhere)
            (snd (extract_tar env_unpacks_elsewhere (DET_TAR env_unpacks_elsewhere)
                    (MODEL_DIR env_unpacks_elsewhere) world0)))
     = Inr (Path True [''app'', ''PP_OCR_models'', ''ch_PP-OCRv4_det_infer''])
   \<and> \<not> extractions
          (calls (snd (extract_tar env_unpacks_elsewhere (DET_TAR env_unpacks_elsewhere)
                         (MODEL_DIR env_unpacks_elsewhere)
                         (snd (extract_tar env_unpacks_elsewhere (DET_TAR env_unpacks_elsewhere)
                                 (MODEL_DIR env_unpacks_elsewhere) world0))))) \<le> 1"
  by (simp add: extract_tar_def Let_def log_info_def extractions_def
        env_unpacks_elsewhere_def example_defs)

text \<open>
  C3, amended. If the extracted directory (the destination joined with the archive's stem)
  already exists, \<open>extract_tar\<close> performs no extraction: it returns that path and only
  appends the \<open>Already extracted\<close> record. If a first invocation returns and the
  directory exists afterwards, a second invocation on the same pair performs no
  extraction and returns the same path, so the two together extract at most once.
  Whenever both invocations return, they return the same path.
\<close>

theorem extract_tar_idempotent_if_directory_appears:
  "(fs w (joinpath dest (path_stem tar_path)) \<noteq> None
      \<longrightarrow> extract_tar E tar_path dest w =
            (Inr (joinpath dest (path_stem tar_path)),
             log_info (''Already extracted: '' @ path_stem tar_path) w))
   \<and> (extract_tar E tar_path dest w = (Inr p, w1) \<and> fs w1 p \<noteq> None
      \<longrightarrow> extract_tar E tar_path dest w1 =
            (Inr p, log_info (''Already extracted: '' @ path_stem tar_path) w1)
          \<and> extractions (calls (snd (extract_tar E tar_path dest w1)))
              \<le> extractions (calls w) + 1)
   \<and> (extract_tar E tar_path dest w = (Inr p, w1)
        \<and> extract_tar E tar_path dest w1 = (Inr p', w')
      \<longrightarrow> p' = p)"
proof -
  let ?p = "joinpath dest (path_stem tar_path)"
  let ?msg = "''Already extracted: '' @ path_stem tar_path"
  have a: "extract_tar E tar_path dest v = (Inr ?p, log_info ?msg v)"
    if "fs v ?p \<noteq> None" for v
    using that by (simp add: extract_tar_def Let_def)
  have c: "q = ?p" if "extract_tar E tar_path dest v = (Inr q, v')" for q v v'
    using extract_tar_world [OF that] by blast
  have b: "extractions (calls w1) \<le> extractions (calls w) + 1"
    if x: "extract_tar E tar_path dest w = (Inr p, w1)"
  proof -
    from extract_tar_world [OF x]
    have "calls w1 = calls w \<or> calls w1 = calls w @ [TarExtract tar_path dest]"
      by blast
    then show ?thesis
      by (auto simp: extractions_def)
  qed
  have one: "fs w ?p \<noteq> None \<longrightarrow> extract_tar E tar_path dest w = (Inr ?p, log_info ?msg w)"
    using a [of w] by blast
  have two: "extract_tar E tar_path dest w = (Inr p, w1) \<and> fs w1 p \<noteq> None
      \<longrightarrow> extract_tar E tar_path dest w1 = (Inr p, log_info ?msg w1)
          \<and> extractions (calls (snd (extract_tar E tar_path dest w1)))
              \<le> extractions (calls w) + 1"
  proof
    assume h: "extract_tar E tar_path dest w = (Inr p, w1) \<and> fs w1 p \<noteq> None"
    then have x: "extract_tar E tar_path dest w = (Inr p, w1)" and t: "fs w1 p \<noteq> None"
      by blast+
    have p: "p = ?p" by (rule c [OF x])
    from t p have "fs w1 ?p \<noteq> None" by simp
    then have s: "extract_tar E tar_path dest w1 = (Inr ?p, log_info ?msg w1)"
      by (rule a)
    have "calls (snd (extract_tar E tar_path dest w1)) = calls w1"
      unfolding s by (simp add: log_info_def)
    with b [OF x] s p
    show "extract_tar E tar_path dest w1 = (Inr p, log_info ?msg w1)
          \<and> extractions (calls (snd (extract_tar E tar_path dest w1)))
              \<le> extractions (calls w) + 1"
      by simp
  qed
  have three: "extract_tar E tar_path dest w = (Inr p, w1)
        \<and> extract_tar E tar_path dest w1 = (Inr p', w') \<longrightarrow> p' = p"
    using c [of w p w1] c [of w1 p' w'] by blast
  from one two three show ?thesis
    by blast
qed

theorem extract_tar_idempotent_if_directory_appears_witness:
  "fst (extract_tar env_good (DET_TAR env_good) (MODEL_DIR env_good)
          (snd (extract_tar env_good (DET_TAR env_good) (MODEL_DIR env_good) world0)))
     = Inr (Path True [''app'', ''PP_OCR_models'', ''ch_PP-OCRv4_det_infer''])
   \<and> extractions
       (calls (snd (extract_tar env_good (DET_TAR env_good) (MODEL_DIR env_good)
                      (snd (extract_tar env_good (DET_TAR env_good) (MODEL_DIR env_good)
                              world0))))) \<le> 1"
proof -
  define d where "d = Path True [''app'', ''PP_OCR_models'', ''ch_PP-OCRv4_det_infer'']"
  define w1 where
    "w1 = snd (extract_tar env_good (DET_TAR env_good) (MODEL_DIR env_good) world0)"
  have ex: "extract_tar env_good (DET_TAR env_good) (MODEL_DIR env_good) world0 = (Inr d, w1)"
    by (simp add: w1_def d_def prod_eq_iff extract_tar_def Let_def log_info_def
          env_good_def example_defs)
  have there: "fs w1 d \<noteq> None"
    by (simp add: w1_def d_def extract_tar_def Let_def log_info_def env_good_def example_defs)
  have z: "extractions (calls world0) = 0"
    by (simp add: world0_def extractions_def)
  have r: "extract_tar env_good (DET_TAR env_good) (MODEL_DIR env_good) w1 =
          (Inr d, log_info (''Already extracted: '' @ path_stem (DET_TAR env_good)) w1)
        \<and> extractions (calls (snd (extract_tar env_good (DET_TAR env_good)
                                      (MODEL_DIR env_good) w1)))
            \<le> extractions (calls world0) + 1"
    by (rule extract_tar_idempotent_if_directory_appears
               [THEN conjunct2, THEN conjunct1, THEN mp, OF conjI [OF ex there]])
  from r have r1: "extract_tar env_good (DET_TAR env_good) (MODEL_DIR env_good) w1 =
          (Inr d, log_info (''Already extracted: '' @ path_stem (DET_TAR env_good)) w1)"
    by (rule conjunct1)
  from r have r2: "extractions (calls (snd (extract_tar env_good (DET_TAR env_good)
                                      (MODEL_DIR env_good) w1)))
            \<le> extractions (calls world0) + 1"
    by (rule conjunct2)
  have f: "fst (extract_tar env_good (DET_TAR env_good) (MODEL_DIR env_good) w1) = Inr d"
    unfolding r1 by (rule fst_conv)
  have g: "extractions (calls (snd (extract_tar env_good (DET_TAR env_good)
                                      (MODEL_DIR env_good) w1))) \<le> 1"
    using r2 unfolding z by simp
  from f g show ?thesis
    unfolding w1_def d_def by (rule conjI)
qed

text \<open>
  C5. When the converter process exits with status 0 and the output file is there with
  \<open>n\<close> bytes, \<open>paddle_to_onnx\<close> returns and its last log record is
  \<open>ONNX model saved: <path> (<size> MB)\<close>. The size is the float \<open>n / 1024 ** 2\<close>:
  it differs from the exact quotient by at most the quotient times \<open>2 ** -53\<close>, and is
  the exact quotient for \<open>n\<close> below \<open>2 ** 53\<close>. It is rendered as its integer digits,
  a point and two decimals, the nearest hundredth to the float.
\<close>

theorem logged_size_in_megabytes:
  assumes run: "subprocess_run E (converter_cmd d out) (fs w) = (Inr result, fs')"
    and rc: "returncode result = 0"
    and present: "fs' out = Some n"
  shows "fst (paddle_to_onnx E d out w) = Inr ()
         \<and> last (logged (snd (paddle_to_onnx E d out w))) =
             ''ONNX model saved: '' @ path_str out @ '' (''
               @ format_2f (py_truediv_pow2 n 20) @ '' MB)''
         \<and> \<bar>py_truediv_pow2 n 20 - of_nat n / (1024 * 1024)\<bar>
             \<le> of_nat n / (1024 * 1024) / 2 ^ 53
         \<and> (n < 2 ^ 53 \<longrightarrow> py_truediv_pow2 n 20 = of_nat n / (1024 * 1024))
         \<and> format_2f (py_truediv_pow2 n 20) =
             str_nat (hundredths (py_truediv_pow2 n 20) div 100) @ ''.''
               @ [''0123456789'' ! (hundredths (py_truediv_pow2 n 20) mod 100 div 10),
                  ''0123456789'' ! (hundredths (py_truediv_pow2 n 20) mod 10)]
         \<and> \<bar>of_nat (hundredths (py_truediv_pow2 n 20)) / 100 - py_truediv_pow2 n 20\<bar>
             \<le> 1 / 200"
proof -
  have m: "(1024 * 1024 :: rat) = 2 ^ 20" by simp
  have p: "paddle_to_onnx E d out w =
             (Inr (),
              w\<lparr>fs := fs',
                logged := logged w @ [''Converting '' @ path_name out @ '' to ONNX...'',
                  ''ONNX model saved: '' @ path_str out @ '' (''
                     @ format_2f (py_truediv_pow2 n 20) @ '' MB)''],
                calls := calls w @ [Subprocess (converter_cmd d out)]\<rparr>)"
    using paddle_to_onnx_zero [OF run rc] present by simp
  have a: "fst (paddle_to_onnx E d out w) = Inr ()"
    unfolding p by (rule fst_conv)
  have b: "last (logged (snd (paddle_to_onnx E d out w))) =
             ''ONNX model saved: '' @ path_str out @ '' (''
               @ format_2f (py_truediv_pow2 n 20) @ '' MB)''"
    unfolding p by simp
  have c: "\<bar>py_truediv_pow2 n 20 - of_nat n / (1024 * 1024)\<bar>
             \<le> of_nat n / (1024 * 1024) / 2 ^ 53"
    unfolding m by (rule py_truediv_pow2_error)
  have e: "n < 2 ^ 53 \<longrightarrow> py_truediv_pow2 n 20 = of_nat n / (1024 * 1024)"
    unfolding m using py_truediv_pow2_exact [of n 20] by blast
  have f: "format_2f (py_truediv_pow2 n 20) =
             str_nat (hundredths (py_truediv_pow2 n 20) div 100) @ ''.''
               @ [''0123456789'' ! (hundredths (py_truediv_pow2 n 20) mod 100 div 10),
                  ''0123456789'' ! (hundredths (py_truediv_pow2 n 20) mod 10)]"
    by (rule format_2f_shape)
  have g: "\<bar>of_nat (hundredths (py_truediv_pow2 n 20)) / 100 - py_truediv_pow2 n 20\<bar>
             \<le> 1 / 200"
    by (rule hundredths_error) (rule py_truediv_pow2_nonneg)
  from a b c e f g show ?thesis
    by blast
qed

theorem logged_size_in_megabytes_witness:
  "last (logged (snd (paddle_to_onnx env_good
                        (Path True [''app'', ''PP_OCR_models'', ''ch_PP-OCRv4_det_infer''])
                        (Path True [''app'', ''output'', ''det.onnx'']) world0)))
     = ''ONNX model saved: /app/output/det.onnx (2.50 MB)''
   \<and> py_truediv_pow2 2621440 20 = 2621440 / (1024 * 1024)"
proof -
  define d where "d = Path True [''app'', ''PP_OCR_models'', ''ch_PP-OCRv4_det_infer'']"
  define out where "out = Path True [''app'', ''output'', ''det.onnx'']"
  have run: "subprocess_run env_good (converter_cmd d out) (fs world0)
             = (Inr \<lparr>returncode = 0, stdout = [], stderr = []\<rparr>, (fs world0)(out \<mapsto> 2621440))"
    by (simp add: env_good_def example_env_def converter_writes_def converter_cmd_def
          d_def out_def)
  have rc: "returncode \<lparr>returncode = 0, stdout = [], stderr = []\<rparr> = 0"
    by simp
  have present: "((fs world0)(out \<mapsto> 2621440)) out = Some 2621440"
    by simp
  have lt: "(2621440::nat) < 2 ^ 53"
    by simp
  have o: "path_str out = ''/app/output/det.onnx''"
    by (simp add: out_def)
  note t = logged_size_in_megabytes [OF run rc present]
  from t have l: "last (logged (snd (paddle_to_onnx env_good d out world0))) =
             ''ONNX model saved: '' @ path_str out @ '' (''
               @ format_2f (py_truediv_pow2 2621440 20) @ '' MB)''"
    by blast
  from t lt have v: "py_truediv_pow2 2621440 20 = of_nat 2621440 / (1024 * 1024)"
    by blast
  have l': "last (logged (snd (paddle_to_onnx env_good d out world0)))
              = ''ONNX model saved: /app/output/det.onnx (2.50 MB)''"
    unfolding l o format_2f_example by simp
  from v have v': "py_truediv_pow2 2621440 20 = 2621440 / (1024 * 1024)"
    by simp
  from l' v' show ?thesis
    unfolding d_def out_def by (rule conjI)
qed

end
